theory Spec2Isabelle
  imports Main "HOL-Library.Word"
begin

section \<open>Value types shared by the two translation units\<close>

text \<open>
  The C++ sources are \<^verbatim>\<open>icetransport.cpp\<close> (class \<^verbatim>\<open>IceTransport\<close>, the adapter around
  the libnice agent) and \<^verbatim>\<open>peerconnection.cpp\<close> (class \<^verbatim>\<open>PeerConnection\<close>).  Every
  member function becomes a HOL function that takes the object and returns the updated
  object; a \<^verbatim>\<open>throw\<close> is the \<open>Inl\<close> branch of a sum.  A member function that
  mutates the object before it throws returns the mutated object next to the error.
  \<open>Terminate\<close> is not an exception: it is a call of \<^verbatim>\<open>std::terminate\<close>, which ends the
  process inside the call.  Nothing can catch it, and the object next to it is the one
  the process ended with.
\<close>

type_synonym byte = "8 word"
type_synonym guint = "32 word"
type_synonym uint16 = "16 word"

datatype error = RuntimeError string | LogicError string | UndefinedBehaviour | Terminate

datatype Role = Active | Passive | ActPass

datatype MessageType = Binary | StringMsg | Control

text \<open>
  \<^verbatim>\<open>Message\<close> (declared in the missing \<^verbatim>\<open>message.hpp\<close>) is a byte vector with a type
  tag and a stream number.  Stream numbers are \<^verbatim>\<open>unsigned int\<close>; every value the code
  computes from them stays below \<open>65537\<close>, so the 32-bit arithmetic never wraps and
  they are natural numbers here.
\<close>

record Message =
  msg_type :: MessageType
  msg_stream :: nat
  msg_data :: "byte list"

record Candidate =
  cand_candidate :: string
  cand_mid :: string

record Description =
  desc_role :: Role
  desc_sdp :: string
  desc_fingerprint :: "string option"
  desc_sctpPort :: "uint16 option"

section \<open>The environment: libnice and the value classes that are not in the sources\<close>

text \<open>
  Calls into libnice and into \<^verbatim>\<open>description.cpp\<close> / \<^verbatim>\<open>candidate.cpp\<close> are answered by
  an environment.  Nothing is assumed about its answers: every theorem below holds for
  every environment.  \<open>State_READY\<close> is the value of the enumerator \<^verbatim>\<open>State::READY\<close>
  and \<open>mState_initial\<close> the value \<^verbatim>\<open>mState\<close> has before the first state change;
  both come from the missing header \<^verbatim>\<open>icetransport.hpp\<close>.
\<close>

record env =
  nice_agent_new_ok :: bool
  nice_agent_add_stream :: guint
  nice_agent_generate_local_sdp :: string
  nice_agent_parse_remote_sdp :: "string \<Rightarrow> int"
  nice_agent_gather_candidates :: bool
  nice_agent_parse_remote_candidate_sdp :: "string \<Rightarrow> string option"
  nice_agent_set_remote_candidates :: "string \<Rightarrow> int"
  nice_agent_get_stream_name :: string
  parse_fingerprint :: "string \<Rightarrow> string option"
  parse_sctpPort :: "string \<Rightarrow> uint16 option"
  Description_string :: "Description \<Rightarrow> string"
  Candidate_string :: "Candidate \<Rightarrow> string"
  State_READY :: guint
  mState_initial :: guint

text \<open>The constructor \<^verbatim>\<open>Description(role, sdp)\<close> reads the fields out of the text.\<close>

definition Description_new :: "env \<Rightarrow> Role \<Rightarrow> string \<Rightarrow> Description" where
  "Description_new e r sdp =
     \<lparr>desc_role = r, desc_sdp = sdp,
      desc_fingerprint = parse_fingerprint e sdp, desc_sctpPort = parse_sctpPort e sdp\<rparr>"

section \<open>IceTransport\<close>

text \<open>
  The calls an \<^verbatim>\<open>IceTransport\<close> makes on its agent are logged in order in \<open>nice_calls\<close>;
  the callbacks it invokes (\<^verbatim>\<open>mCandidateCallback\<close>, \<^verbatim>\<open>mReadyCallback\<close>) are returned as a
  list, in the order of invocation, for the owner to dispatch.
\<close>

datatype nice_call =
    NiceParseRemoteSdp string
  | NiceGatherCandidates guint
  | NiceSetRemoteCandidates guint string
  | NiceSend guint nat "byte list"

datatype ice_callback = CandidateCallback "Candidate option" | ReadyCallback

record IceTransport =
  mRole :: Role
  mStreamId :: guint
  mState :: guint
  nice_calls :: "nice_call list"

text \<open>
  The constructor.  The failed main-loop check builds an exception object without
  throwing it, and the choice of a STUN server only sets agent properties; neither
  changes the object.  A missing agent is thrown (line 54) before the main-loop thread
  is started (line 56).  A failed \<^verbatim>\<open>nice_agent_add_stream\<close> is thrown (line 112) after
  it: unwinding the constructor destroys the member \<^verbatim>\<open>mMainLoopThread\<close> while it is
  joinable, and the destructor of a joinable \<^verbatim>\<open>std::thread\<close> calls \<^verbatim>\<open>std::terminate\<close>.
\<close>

definition IceTransport_new :: "env \<Rightarrow> Role \<Rightarrow> error + IceTransport" where
  "IceTransport_new e r =
     (if \<not> nice_agent_new_ok e then Inl (RuntimeError ''Failed to create the nice agent'')
      else if nice_agent_add_stream e = 0 then Inl Terminate
      else Inr \<lparr>mRole = r, mStreamId = nice_agent_add_stream e, mState = mState_initial e,
                 nice_calls = []\<rparr>)"

definition role :: "IceTransport \<Rightarrow> Role" where
  "role t = mRole t"

definition getLocalDescription :: "env \<Rightarrow> IceTransport \<Rightarrow> Description" where
  "getLocalDescription e t = Description_new e (mRole t) (nice_agent_generate_local_sdp e)"

definition ice_setRemoteDescription ::
  "env \<Rightarrow> Description \<Rightarrow> IceTransport \<Rightarrow> (error + unit) \<times> IceTransport" where
  "ice_setRemoteDescription e d t =
     (let t' = t\<lparr>nice_calls := nice_calls t @ [NiceParseRemoteSdp (Description_string e d)]\<rparr>
      in if nice_agent_parse_remote_sdp e (Description_string e d) \<noteq> 0
         then (Inl (RuntimeError ''Unable to parse remote SDP''), t')
         else (Inr (), t'))"

definition gatherLocalCandidates :: "env \<Rightarrow> IceTransport \<Rightarrow> (error + unit) \<times> IceTransport" where
  "gatherLocalCandidates e t =
     (let t' = t\<lparr>nice_calls := nice_calls t @ [NiceGatherCandidates (mStreamId t)]\<rparr>
      in if \<not> nice_agent_gather_candidates e
         then (Inl (RuntimeError ''Unable to gather local ICE candidates''), t')
         else (Inr (), t'))"

definition addRemoteCandidate :: "env \<Rightarrow> Candidate \<Rightarrow> IceTransport \<Rightarrow> bool \<times> IceTransport" where
  "addRemoteCandidate e c t =
     (case nice_agent_parse_remote_candidate_sdp e (Candidate_string e c) of
        None \<Rightarrow> (False, t)
      | Some cand \<Rightarrow>
          (nice_agent_set_remote_candidates e cand > 0,
           t\<lparr>nice_calls := nice_calls t @ [NiceSetRemoteCandidates (mStreamId t) cand]\<rparr>))"

definition outgoing :: "Message \<Rightarrow> IceTransport \<Rightarrow> IceTransport" where
  "outgoing m t =
     t\<lparr>nice_calls := nice_calls t @ [NiceSend (mStreamId t) (length (msg_data m)) (msg_data m)]\<rparr>"

definition send :: "Message \<Rightarrow> IceTransport \<Rightarrow> bool \<times> IceTransport" where
  "send m t = (if mStreamId t = 0 then (False, t) else (True, outgoing m t))"

definition getStreamName :: "env \<Rightarrow> IceTransport \<Rightarrow> string" where
  "getStreamName e t = nice_agent_get_stream_name e"

definition processCandidate :: "env \<Rightarrow> string \<Rightarrow> IceTransport \<Rightarrow> ice_callback list" where
  "processCandidate e c t =
     [CandidateCallback (Some \<lparr>cand_candidate = c, cand_mid = getStreamName e t\<rparr>)]"

definition processGatheringDone :: "IceTransport \<Rightarrow> ice_callback list" where
  "processGatheringDone t = [CandidateCallback None]"

definition changeState :: "env \<Rightarrow> guint \<Rightarrow> IceTransport \<Rightarrow> IceTransport \<times> ice_callback list" where
  "changeState e s t =
     (let t' = t\<lparr>mState := s\<rparr>
      in (t', if mState t' = State_READY e then [ReadyCallback] else []))"

text \<open>A sequence of state transitions delivered by the agent, one \<^verbatim>\<open>changeState\<close> each.\<close>

fun changeStates :: "env \<Rightarrow> guint list \<Rightarrow> IceTransport \<Rightarrow> IceTransport \<times> ice_callback list" where
  "changeStates e [] t = (t, [])"
| "changeStates e (s # ss) t =
     (case changeState e s t of
        (t', cbs) \<Rightarrow> (case changeStates e ss t' of (t'', cbs') \<Rightarrow> (t'', cbs @ cbs')))"

definition ready_calls :: "ice_callback list \<Rightarrow> nat" where
  "ready_calls cbs = length (filter (\<lambda>c. c = ReadyCallback) cbs)"

section \<open>PeerConnection\<close>

text \<open>
  \<^verbatim>\<open>DataChannel\<close>, \<^verbatim>\<open>DtlsTransport\<close> and \<^verbatim>\<open>SctpTransport\<close> are classes of the repository
  whose code is not in the sources.  The orchestrator only constructs them and calls
  \<^verbatim>\<open>open\<close>, \<^verbatim>\<open>onOpen\<close>, \<^verbatim>\<open>incoming\<close>, \<^verbatim>\<open>isReady\<close> and \<^verbatim>\<open>reset\<close>; each object records the
  calls it received.
\<close>

type_synonym Reliability = nat

record DataChannel =
  dc_stream :: nat
  dc_label :: string
  dc_protocol :: string
  dc_reliability :: "Reliability option"
  dc_sctpTransport :: bool
  dc_openCallback :: bool
  dc_incoming :: "Message list"
  dc_open_calls :: nat

definition DataChannel_local :: "nat \<Rightarrow> string \<Rightarrow> string \<Rightarrow> Reliability \<Rightarrow> DataChannel" where
  "DataChannel_local stream label protocol reliability =
     \<lparr>dc_stream = stream, dc_label = label, dc_protocol = protocol,
      dc_reliability = Some reliability, dc_sctpTransport = False, dc_openCallback = False,
      dc_incoming = [], dc_open_calls = 0\<rparr>"

definition DataChannel_remote :: "nat \<Rightarrow> DataChannel" where
  "DataChannel_remote stream =
     \<lparr>dc_stream = stream, dc_label = [], dc_protocol = [],
      dc_reliability = None, dc_sctpTransport = True, dc_openCallback = False,
      dc_incoming = [], dc_open_calls = 0\<rparr>"

definition dc_open :: "DataChannel \<Rightarrow> DataChannel" where
  "dc_open c = c\<lparr>dc_sctpTransport := True, dc_open_calls := Suc (dc_open_calls c)\<rparr>"

definition dc_onOpen :: "DataChannel \<Rightarrow> DataChannel" where
  "dc_onOpen c = c\<lparr>dc_openCallback := True\<rparr>"

definition dc_incoming_call :: "Message \<Rightarrow> DataChannel \<Rightarrow> DataChannel" where
  "dc_incoming_call m c = c\<lparr>dc_incoming := dc_incoming c @ [m]\<rparr>"

datatype DtlsTransport = DtlsTransport

record SctpTransport =
  sctp_port :: uint16
  sctp_isReady :: bool
  sctp_resets :: "nat list"

definition sctp_reset :: "nat \<Rightarrow> SctpTransport \<Rightarrow> SctpTransport" where
  "sctp_reset stream s = s\<lparr>sctp_resets := sctp_resets s @ [stream]\<rparr>"

text \<open>
  What the orchestrator does that is visible outside it: the transports it constructs
  and the application callbacks it invokes, in order.
\<close>

datatype effect =
    IceTransportCreated Role
  | DtlsTransportCreated
  | SctpTransportCreated uint16
  | LocalDescription string
  | LocalCandidate "string option"
  | DataChannelCallback nat

text \<open>
  The three \<^verbatim>\<open>std::function\<close> members are flags (set or empty); calling one appends to
  \<open>effects\<close>.  \<open>mCertificate\<close> holds the certificate's fingerprint.
\<close>

record PeerConnection =
  mCertificate :: string
  mMid :: string
  mSctpPort :: uint16
  mRemoteFingerprint :: "string option"
  mIceTransport :: "IceTransport option"
  mDtlsTransport :: "DtlsTransport option"
  mSctpTransport :: "SctpTransport option"
  mDataChannels :: "nat \<rightharpoonup> DataChannel"
  mDataChannelCallback :: bool
  mLocalDescriptionCallback :: bool
  mLocalCandidateCallback :: bool
  effects :: "effect list"

definition PeerConnection_new :: "string \<Rightarrow> PeerConnection" where
  "PeerConnection_new fp =
     \<lparr>mCertificate = fp, mMid = ''0'', mSctpPort = 5000, mRemoteFingerprint = None,
      mIceTransport = None, mDtlsTransport = None, mSctpTransport = None,
      mDataChannels = Map.empty, mDataChannelCallback = False,
      mLocalDescriptionCallback = False, mLocalCandidateCallback = False, effects = []\<rparr>"

text \<open>\<^verbatim>\<open>std::unordered_map::insert\<close> keeps an entry that is already there.\<close>

definition insert_pair :: "nat \<Rightarrow> DataChannel \<Rightarrow> (nat \<rightharpoonup> DataChannel) \<Rightarrow> (nat \<rightharpoonup> DataChannel)" where
  "insert_pair k v m = (if m k = None then m(k \<mapsto> v) else m)"

text \<open>
  Sequencing: the statement after a call runs on the object the call left, unless the
  call threw or ended the process; then nothing more of the function runs.
\<close>

definition and_then ::
  "(error + 'a) \<times> 's \<Rightarrow> ('a \<Rightarrow> 's \<Rightarrow> (error + 'b) \<times> 's) \<Rightarrow> (error + 'b) \<times> 's" where
  "and_then r k = (case r of (Inl err, s) \<Rightarrow> (Inl err, s) | (Inr v, s) \<Rightarrow> k v s)"

text \<open>A call \<^verbatim>\<open>mIceTransport->f(...)\<close>; through a null pointer it is undefined.\<close>

definition on_ice ::
  "(IceTransport \<Rightarrow> (error + 'a) \<times> IceTransport) \<Rightarrow> PeerConnection \<Rightarrow> (error + 'a) \<times> PeerConnection" where
  "on_ice f pc =
     (case mIceTransport pc of
        None \<Rightarrow> (Inl UndefinedBehaviour, pc)
      | Some t \<Rightarrow> (case f t of (r, t') \<Rightarrow> (r, pc\<lparr>mIceTransport := Some t'\<rparr>)))"

definition initIceTransport :: "env \<Rightarrow> Role \<Rightarrow> PeerConnection \<Rightarrow> (error + unit) \<times> PeerConnection" where
  "initIceTransport e r pc =
     (case IceTransport_new e r of
        Inl err \<Rightarrow> (Inl err, pc)
      | Inr t \<Rightarrow>
          (Inr (), pc\<lparr>mIceTransport := Some t, effects := effects pc @ [IceTransportCreated r]\<rparr>))"

definition initDtlsTransport :: "PeerConnection \<Rightarrow> PeerConnection" where
  "initDtlsTransport pc =
     pc\<lparr>mDtlsTransport := Some DtlsTransport, effects := effects pc @ [DtlsTransportCreated]\<rparr>"

definition initSctpTransport :: "PeerConnection \<Rightarrow> PeerConnection" where
  "initSctpTransport pc =
     pc\<lparr>mSctpTransport := Some \<lparr>sctp_port = mSctpPort pc, sctp_isReady = False, sctp_resets = []\<rparr>,
        effects := effects pc @ [SctpTransportCreated (mSctpPort pc)]\<rparr>"

definition checkFingerprint :: "string \<Rightarrow> PeerConnection \<Rightarrow> bool" where
  "checkFingerprint fingerprint pc =
     (case mRemoteFingerprint pc of None \<Rightarrow> False | Some f \<Rightarrow> f = fingerprint)"

definition triggerLocalDescription :: "env \<Rightarrow> PeerConnection \<Rightarrow> PeerConnection" where
  "triggerLocalDescription e pc =
     (case mIceTransport pc of
        Some t \<Rightarrow>
          if mLocalDescriptionCallback pc
          then (let desc = getLocalDescription e t;
                    desc1 = desc\<lparr>desc_fingerprint := Some (mCertificate pc)\<rparr>;
                    desc2 = desc1\<lparr>desc_sctpPort := Some (mSctpPort pc)\<rparr>
                in pc\<lparr>effects := effects pc @ [LocalDescription (Description_string e desc2)]\<rparr>)
          else pc
      | None \<Rightarrow> pc)"

definition triggerLocalCandidate :: "env \<Rightarrow> Candidate option \<Rightarrow> PeerConnection \<Rightarrow> PeerConnection" where
  "triggerLocalCandidate e candidate pc =
     (if mLocalCandidateCallback pc
      then pc\<lparr>effects := effects pc @
                [LocalCandidate (case candidate of Some c \<Rightarrow> Some (Candidate_string e c) | None \<Rightarrow> None)]\<rparr>
      else pc)"

definition triggerDataChannel :: "nat \<Rightarrow> PeerConnection \<Rightarrow> PeerConnection" where
  "triggerDataChannel stream pc =
     (if mDataChannelCallback pc
      then pc\<lparr>effects := effects pc @ [DataChannelCallback stream]\<rparr>
      else pc)"

definition openDataChannels :: "PeerConnection \<Rightarrow> PeerConnection" where
  "openDataChannels pc =
     pc\<lparr>mDataChannels := (\<lambda>stream. map_option dc_open (mDataChannels pc stream))\<rparr>"

text \<open>
  Lines 44 to 49 of \<^verbatim>\<open>setRemoteDescription\<close>: a fingerprint and an SCTP port that the
  description carries are stored, before anything else happens.
\<close>

definition recordRemote :: "Description \<Rightarrow> PeerConnection \<Rightarrow> PeerConnection" where
  "recordRemote desc pc =
     (let pc1 = (case desc_fingerprint desc of
                   Some f \<Rightarrow> pc\<lparr>mRemoteFingerprint := Some f\<rparr> | None \<Rightarrow> pc)
      in (case desc_sctpPort desc of
            Some p \<Rightarrow> pc1\<lparr>mSctpPort := p\<rparr> | None \<Rightarrow> pc1))"

definition setRemoteDescription :: "env \<Rightarrow> string \<Rightarrow> PeerConnection \<Rightarrow> (error + unit) \<times> PeerConnection" where
  "setRemoteDescription e description pc =
     (let desc = Description_new e ActPass description;
          pc2 = recordRemote desc pc
      in case mIceTransport pc2 of
           None \<Rightarrow>
             and_then (initIceTransport e ActPass pc2) (\<lambda>u pc3.
             and_then (on_ice (ice_setRemoteDescription e desc) pc3) (\<lambda>u pc4.
             on_ice (gatherLocalCandidates e) (triggerLocalDescription e pc4)))
         | Some t \<Rightarrow> on_ice (ice_setRemoteDescription e desc) pc2)"

definition setRemoteCandidate :: "env \<Rightarrow> string \<Rightarrow> PeerConnection \<Rightarrow> (error + unit) \<times> PeerConnection" where
  "setRemoteCandidate e candidate pc =
     (let cand = \<lparr>cand_candidate = candidate, cand_mid = mMid pc\<rparr>
      in case mIceTransport pc of
           Some t \<Rightarrow>
             (case addRemoteCandidate e cand t of
                (accepted, t') \<Rightarrow> (Inr (), pc\<lparr>mIceTransport := Some t'\<rparr>))
         | None \<Rightarrow> (Inr (), pc))"

text \<open>
  The search loop of \<^verbatim>\<open>createDataChannel\<close>: on a collision the stream number grows by
  two, and the bound is tested after the increment.
\<close>

function findStream :: "(nat \<rightharpoonup> DataChannel) \<Rightarrow> nat \<Rightarrow> error + nat" where
  "findStream m stream =
     (if m stream \<noteq> None
      then (if stream + 2 \<ge> 65535 then Inl (RuntimeError ''Too many DataChannels'')
            else findStream m (stream + 2))
      else Inr stream)"
  by pat_completeness auto
termination
  by (relation "measure (\<lambda>(m, stream). 65535 - stream)") auto

declare findStream.simps [simp del]

text \<open>The stream number the search starts from: the parity of the local role.\<close>

definition initialStream :: "PeerConnection \<Rightarrow> nat" where
  "initialStream pc =
     (let r = (case mIceTransport pc of Some t \<Rightarrow> role t | None \<Rightarrow> Active)
      in if r = Active then 0 else 1)"

definition createDataChannel ::
  "env \<Rightarrow> string \<Rightarrow> string \<Rightarrow> Reliability \<Rightarrow> PeerConnection \<Rightarrow> (error + DataChannel) \<times> PeerConnection" where
  "createDataChannel e label protocol reliability pc =
     (case findStream (mDataChannels pc) (initialStream pc) of
        Inl err \<Rightarrow> (Inl err, pc)
      | Inr stream \<Rightarrow>
          (let channel = DataChannel_local stream label protocol reliability;
               pc1 = pc\<lparr>mDataChannels := insert_pair stream channel (mDataChannels pc)\<rparr>
           in case mIceTransport pc1 of
                None \<Rightarrow>
                  and_then (initIceTransport e Active pc1) (\<lambda>u pc2.
                  and_then (on_ice (gatherLocalCandidates e) (triggerLocalDescription e pc2)) (\<lambda>u pc3.
                  (Inr channel, pc3)))
              | Some t \<Rightarrow>
                  (case mSctpTransport pc1 of
                     Some s \<Rightarrow>
                       if sctp_isReady s
                       then (Inr (dc_open channel),
                             pc1\<lparr>mDataChannels := (mDataChannels pc1)(stream \<mapsto> dc_open channel)\<rparr>)
                       else (Inr channel, pc1)
                   | None \<Rightarrow> (Inr channel, pc1))))"

text \<open>
  \<^verbatim>\<open>forwardMessage\<close>.  \<^verbatim>\<open>*message->data()\<close> reads the first byte of the payload; it is
  read only when the type is \<^verbatim>\<open>Control\<close>, and reading it from an empty payload is
  undefined.
\<close>

definition forwardMessage :: "Message \<Rightarrow> PeerConnection \<Rightarrow> (error + unit) \<times> PeerConnection" where
  "forwardMessage message pc =
     (case mIceTransport pc of
        None \<Rightarrow> (Inl (LogicError ''Got a DataChannel message without transport''), pc)
      | Some t \<Rightarrow>
     (case mSctpTransport pc of
        None \<Rightarrow> (Inl (LogicError ''Got a DataChannel message without transport''), pc)
      | Some s \<Rightarrow>
     (case mDataChannels pc (msg_stream message) of
        Some channel \<Rightarrow>
          (Inr (), pc\<lparr>mDataChannels :=
                       (mDataChannels pc)(msg_stream message \<mapsto> dc_incoming_call message channel)\<rparr>)
      | None \<Rightarrow>
          (let remoteParity = (if role t = Active then 1 else 0 :: nat)
           in if msg_type message = Control \<and> msg_data message = []
              then (Inl UndefinedBehaviour, pc)
              else if msg_type message = Control \<and> hd (msg_data message) = 0x03 \<and>
                      msg_stream message mod 2 = remoteParity
              then (let channel = dc_onOpen (DataChannel_remote (msg_stream message))
                    in (Inr (),
                        pc\<lparr>mDataChannels :=
                             (insert_pair (msg_stream message) channel (mDataChannels pc))
                               (msg_stream message \<mapsto> dc_incoming_call message channel)\<rparr>))
              else (Inr (), pc\<lparr>mSctpTransport := Some (sctp_reset (msg_stream message) s)\<rparr>)))))"

text \<open>
  The callbacks bound in \<^verbatim>\<open>initIceTransport\<close>: the candidate callback is
  \<^verbatim>\<open>triggerLocalCandidate\<close>, the ready callback is \<^verbatim>\<open>initDtlsTransport\<close>.
\<close>

fun dispatch :: "env \<Rightarrow> ice_callback \<Rightarrow> PeerConnection \<Rightarrow> PeerConnection" where
  "dispatch e (CandidateCallback c) pc = triggerLocalCandidate e c pc"
| "dispatch e ReadyCallback pc = initDtlsTransport pc"

section \<open>Events on a PeerConnection\<close>

text \<open>
  Everything that can happen to a \<^verbatim>\<open>PeerConnection\<close>: the calls of its public interface,
  the three libnice signals routed through its \<^verbatim>\<open>IceTransport\<close>, and the callbacks of
  the upper transports.  An exception leaves the object as the throwing call left it,
  and the application may go on using it.

  Modelled from the spec: \<^verbatim>\<open>dtlstransport.cpp\<close>, \<^verbatim>\<open>sctptransport.cpp\<close> and
  \<^verbatim>\<open>datachannel.cpp\<close> are missing.  A secure transport that exists completes its
  handshake only with a fingerprint that \<^verbatim>\<open>checkFingerprint\<close> accepts and then calls
  \<^verbatim>\<open>initSctpTransport\<close>; a multiplexed transport that exists becomes ready and calls
  \<^verbatim>\<open>openDataChannels\<close>, or delivers a message to \<^verbatim>\<open>forwardMessage\<close>; a channel that
  has an open callback calls it when it has finished opening.
\<close>

datatype op =
    SetRemoteDescription string
  | SetRemoteCandidate string
  | CreateDataChannel string string Reliability
  | OnDataChannel
  | OnLocalDescription
  | OnLocalCandidate
  | StateChangedCallback guint
  | CandidateCallbackSignal string
  | GatheringDoneCallback
  | DtlsHandshake string
  | SctpReady
  | SctpMessage Message
  | ChannelOpened nat

fun step :: "env \<Rightarrow> op \<Rightarrow> PeerConnection \<Rightarrow> PeerConnection" where
  "step e (SetRemoteDescription d) pc = snd (setRemoteDescription e d pc)"
| "step e (SetRemoteCandidate c) pc = snd (setRemoteCandidate e c pc)"
| "step e (CreateDataChannel l p r) pc = snd (createDataChannel e l p r pc)"
| "step e OnDataChannel pc = pc\<lparr>mDataChannelCallback := True\<rparr>"
| "step e OnLocalDescription pc = pc\<lparr>mLocalDescriptionCallback := True\<rparr>"
| "step e OnLocalCandidate pc = pc\<lparr>mLocalCandidateCallback := True\<rparr>"
| "step e (StateChangedCallback s) pc =
     (case mIceTransport pc of
        None \<Rightarrow> pc
      | Some t \<Rightarrow>
          (case changeState e s t of
             (t', cbs) \<Rightarrow> fold (dispatch e) cbs (pc\<lparr>mIceTransport := Some t'\<rparr>)))"
| "step e (CandidateCallbackSignal c) pc =
     (case mIceTransport pc of
        None \<Rightarrow> pc
      | Some t \<Rightarrow> fold (dispatch e) (processCandidate e c t) pc)"
| "step e GatheringDoneCallback pc =
     (case mIceTransport pc of
        None \<Rightarrow> pc
      | Some t \<Rightarrow> fold (dispatch e) (processGatheringDone t) pc)"
| "step e (DtlsHandshake fp) pc =
     (if mDtlsTransport pc \<noteq> None \<and> checkFingerprint fp pc then initSctpTransport pc else pc)"
| "step e SctpReady pc =
     (case mSctpTransport pc of
        None \<Rightarrow> pc
      | Some s \<Rightarrow> openDataChannels (pc\<lparr>mSctpTransport := Some (s\<lparr>sctp_isReady := True\<rparr>)\<rparr>))"
| "step e (SctpMessage m) pc = snd (forwardMessage m pc)"
| "step e (ChannelOpened stream) pc =
     (case mDataChannels pc stream of
        None \<Rightarrow> pc
      | Some c \<Rightarrow> if dc_openCallback c then triggerDataChannel stream pc else pc)"

text \<open>
  A history: each event with the environment that answers it.  A call that ends the
  process (\<open>Terminate\<close>) can only be the last event of an execution; \<open>run\<close> goes on
  from the object the process ended with, so that the histories it covers are the
  executions and more, and what holds after every history holds after every execution.
\<close>

fun run :: "(env \<times> op) list \<Rightarrow> PeerConnection \<Rightarrow> PeerConnection" where
  "run [] pc = pc"
| "run ((e, x) # xs) pc = run xs (step e x pc)"

section \<open>Notions the properties are stated with\<close>

text \<open>The number of \<^verbatim>\<open>IceTransport\<close> objects a connection has constructed so far.\<close>

fun is_IceTransportCreated :: "effect \<Rightarrow> bool" where
  "is_IceTransportCreated (IceTransportCreated r) = True"
| "is_IceTransportCreated x = False"

definition ice_instances :: "PeerConnection \<Rightarrow> nat" where
  "ice_instances pc = length (filter is_IceTransportCreated (effects pc))"

text \<open>
  The constructions are counted by the transport pointer: none while it is null, one
  from then on.
\<close>

definition ice_inv :: "PeerConnection \<Rightarrow> bool" where
  "ice_inv pc = (ice_instances pc = (if mIceTransport pc = None then 0 else 1))"

text \<open>
  The specification's notion of the remote fingerprint recorded by a history, starting
  from \<open>f\<close>: the fingerprint of the last description given to \<^verbatim>\<open>setRemoteDescription\<close>
  that carried one.
\<close>

fun recorded_fingerprint :: "(env \<times> op) list \<Rightarrow> string option \<Rightarrow> string option" where
  "recorded_fingerprint [] f = f"
| "recorded_fingerprint ((e, SetRemoteDescription d) # xs) f =
     recorded_fingerprint xs
       (case desc_fingerprint (Description_new e ActPass d) of Some g \<Rightarrow> Some g | None \<Rightarrow> f)"
| "recorded_fingerprint (x # xs) f = recorded_fingerprint xs f"

text \<open>
  The specification's parity rule: a locally created channel has an even stream number
  if the local role is active and an odd one otherwise.  The local role is that of the
  ICE session; a connection that has none yet takes the active role with the call that
  creates its first channel.
\<close>

definition local_parity :: "PeerConnection \<Rightarrow> nat \<Rightarrow> bool" where
  "local_parity pc k =
     (case mIceTransport pc of
        None \<Rightarrow> even k
      | Some t \<Rightarrow> (if mRole t = Active then even k else odd k))"

text \<open>
  The specification's notion of the stream number a \<^verbatim>\<open>createDataChannel\<close> call has to
  pick: the lowest number of the local parity that is not a key of the registry.
\<close>

definition lowest_free :: "PeerConnection \<Rightarrow> nat \<Rightarrow> bool" where
  "lowest_free pc s =
     (local_parity pc s \<and> s < 65535 \<and> mDataChannels pc s = None \<and>
      (\<forall>k. k < s \<and> local_parity pc k \<longrightarrow> mDataChannels pc k \<noteq> None))"

text \<open>
  The condition under which the \<^verbatim>\<open>IceTransport\<close> constructor ends the process, for a
  call that has to construct one.
\<close>

definition constructor_terminates :: "env \<Rightarrow> PeerConnection \<Rightarrow> bool" where
  "constructor_terminates e pc =
     (mIceTransport pc = None \<and> nice_agent_new_ok e \<and> nice_agent_add_stream e = 0)"

text \<open>
  The stream numbers of the channels that the \<^verbatim>\<open>createDataChannel\<close> calls of a history
  return, in order.
\<close>

fun assigned :: "(env \<times> op) list \<Rightarrow> PeerConnection \<Rightarrow> nat list" where
  "assigned [] pc = []"
| "assigned ((e, CreateDataChannel l p r) # xs) pc =
     (case fst (createDataChannel e l p r pc) of Inr c \<Rightarrow> [dc_stream c] | Inl err \<Rightarrow> [])
       @ assigned xs (step e (CreateDataChannel l p r) pc)"
| "assigned ((e, x) # xs) pc = assigned xs (step e x pc)"

text \<open>
  Concrete inputs.  In \<open>env_example\<close> the agent works, rejects the candidate text
  \<open>''bad''\<close>, and the component states are numbered as in libnice (\<open>CONNECTED = 3\<close>,
  \<open>READY = 4\<close>).
\<close>

definition env_example :: env where
  "env_example =
     \<lparr>nice_agent_new_ok = True, nice_agent_add_stream = 1,
      nice_agent_generate_local_sdp = ''v=0'',
      nice_agent_parse_remote_sdp = (\<lambda>s. 0),
      nice_agent_gather_candidates = True,
      nice_agent_parse_remote_candidate_sdp = (\<lambda>s. if s = ''bad'' then None else Some s),
      nice_agent_set_remote_candidates = (\<lambda>s. 1),
      nice_agent_get_stream_name = ''application'',
      parse_fingerprint = (\<lambda>s. if s = [] then None else Some s),
      parse_sctpPort = (\<lambda>s. None),
      Description_string = desc_sdp,
      Candidate_string = cand_candidate,
      State_READY = 4, mState_initial = 0\<rparr>"

definition ice_example :: IceTransport where
  "ice_example = \<lparr>mRole = Active, mStreamId = 1, mState = 0, nice_calls = []\<rparr>"

definition pc_example :: PeerConnection where
  "pc_example =
     \<lparr>mCertificate = ''AA:BB'', mMid = ''0'', mSctpPort = 5000, mRemoteFingerprint = None,
      mIceTransport = Some ice_example, mDtlsTransport = Some DtlsTransport,
      mSctpTransport = Some \<lparr>sctp_port = 5000, sctp_isReady = True, sctp_resets = []\<rparr>,
      mDataChannels = Map.empty, mDataChannelCallback = True,
      mLocalDescriptionCallback = True, mLocalCandidateCallback = True, effects = []\<rparr>"

text \<open>A fresh connection whose application has registered its description callback.\<close>

definition pc_fresh :: PeerConnection where
  "pc_fresh = (PeerConnection_new ''AA:BB'')\<lparr>mLocalDescriptionCallback := True\<rparr>"

text \<open>
  A connection in the active role whose registry holds every even stream number below
  \<open>65535\<close>, a connection whose ICE session has the role \<open>ActPass\<close> (as one created by
  \<^verbatim>\<open>setRemoteDescription\<close>), an environment in which \<^verbatim>\<open>nice_agent_add_stream\<close> fails,
  and a history of three \<^verbatim>\<open>createDataChannel\<close> calls.
\<close>

definition pc_answerer :: PeerConnection where
  "pc_answerer = pc_example\<lparr>mIceTransport := Some (ice_example\<lparr>mRole := ActPass\<rparr>)\<rparr>"

definition env_no_stream :: env where
  "env_no_stream = env_example\<lparr>nice_agent_add_stream := 0\<rparr>"

definition pc_full :: PeerConnection where
  "pc_full = pc_example\<lparr>mDataChannels :=
     (\<lambda>k. if k < 65535 \<and> k mod 2 = 0 then Some (DataChannel_local k [] [] 0) else None)\<rparr>"

definition three_channels :: "(env \<times> op) list" where
  "three_channels =
     [(env_example, CreateDataChannel ''a'' [] 0),
      (env_example, CreateDataChannel ''b'' [] 0),
      (env_example, CreateDataChannel ''c'' [] 0)]"

text \<open>
  A data-channel open message as the peer sends it (message type \<open>0x03\<close>, then channel
  type, priority, reliability parameter and the two lengths: twelve bytes for an empty
  label and protocol), and a control message whose whole payload is the byte \<open>0x03\<close>.
\<close>

definition open_message :: Message where
  "open_message =
     \<lparr>msg_type = Control, msg_stream = 3, msg_data = [0x03, 0, 0, 0, 0, 0, 0, 0, 0, 0, 0, 0]\<rparr>"

definition one_byte_message :: "nat \<Rightarrow> Message" where
  "one_byte_message stream = \<lparr>msg_type = Control, msg_stream = stream, msg_data = [0x03]\<rparr>"

section \<open>Auxiliary facts\<close>

lemma changeStates_callbacks:
  "snd (changeStates e ss t) = map (\<lambda>s. ReadyCallback) (filter (\<lambda>s. s = State_READY e) ss)"
  by (induction ss arbitrary: t) (simp_all add: changeState_def split_beta)

lemma changeStates_state:
  "mState (fst (changeStates e ss t)) = (if ss = [] then mState t else last ss)"
  by (induction ss arbitrary: t) (simp_all add: changeState_def split_beta)

lemma and_then_preserves:
  assumes "P (snd r)" and "\<And>v s. P s \<Longrightarrow> P (snd (k v s))"
  shows "P (snd (and_then r k))"
proof (cases r)
  case (Pair x s)
  with assms show ?thesis by (cases x) (simp_all add: and_then_def)
qed

lemma on_ice_fields [simp]:
  "mRemoteFingerprint (snd (on_ice f pc)) = mRemoteFingerprint pc"
  "effects (snd (on_ice f pc)) = effects pc"
  "mDataChannels (snd (on_ice f pc)) = mDataChannels pc"
  "mSctpTransport (snd (on_ice f pc)) = mSctpTransport pc"
  "(mIceTransport (snd (on_ice f pc)) = None) = (mIceTransport pc = None)"
  by (simp_all add: on_ice_def split_beta split: option.splits)

lemma triggerLocalDescription_fields [simp]:
  "mRemoteFingerprint (triggerLocalDescription e pc) = mRemoteFingerprint pc"
  "mIceTransport (triggerLocalDescription e pc) = mIceTransport pc"
  "mDataChannels (triggerLocalDescription e pc) = mDataChannels pc"
  "filter is_IceTransportCreated (effects (triggerLocalDescription e pc)) =
     filter is_IceTransportCreated (effects pc)"
  by (simp_all add: triggerLocalDescription_def Let_def split: option.splits)

lemma initIceTransport_fields [simp]:
  "mRemoteFingerprint (snd (initIceTransport e r pc)) = mRemoteFingerprint pc"
  "mDataChannels (snd (initIceTransport e r pc)) = mDataChannels pc"
  by (simp_all add: initIceTransport_def split: sum.splits)

lemma initIceTransport_inv:
  "mIceTransport pc = None \<Longrightarrow> ice_inv pc \<Longrightarrow> ice_inv (snd (initIceTransport e r pc))"
  by (simp add: initIceTransport_def ice_inv_def ice_instances_def split: sum.splits)

lemma ice_inv_on_ice [simp]: "ice_inv (snd (on_ice f pc)) = ice_inv pc"
  by (simp add: ice_inv_def ice_instances_def)

lemma ice_inv_triggerLocalDescription [simp]:
  "ice_inv (triggerLocalDescription e pc) = ice_inv pc"
  by (simp add: ice_inv_def ice_instances_def)

lemma ice_inv_updates [simp]:
  "ice_inv (pc\<lparr>mRemoteFingerprint := f\<rparr>) = ice_inv pc"
  "ice_inv (pc\<lparr>mSctpPort := p\<rparr>) = ice_inv pc"
  "ice_inv (pc\<lparr>mDataChannels := m\<rparr>) = ice_inv pc"
  "ice_inv (pc\<lparr>mSctpTransport := s\<rparr>) = ice_inv pc"
  "ice_inv (pc\<lparr>mDataChannelCallback := b\<rparr>) = ice_inv pc"
  "ice_inv (pc\<lparr>mLocalDescriptionCallback := b\<rparr>) = ice_inv pc"
  "ice_inv (pc\<lparr>mLocalCandidateCallback := b\<rparr>) = ice_inv pc"
  by (simp_all add: ice_inv_def ice_instances_def)

lemma recordRemote_fields [simp]:
  "mIceTransport (recordRemote desc pc) = mIceTransport pc"
  "effects (recordRemote desc pc) = effects pc"
  "mDataChannels (recordRemote desc pc) = mDataChannels pc"
  "ice_inv (recordRemote desc pc) = ice_inv pc"
  "mRemoteFingerprint (recordRemote desc pc) =
     (case desc_fingerprint desc of Some g \<Rightarrow> Some g | None \<Rightarrow> mRemoteFingerprint pc)"
  by (simp_all add: recordRemote_def Let_def split: option.splits)


lemma and_then_ice_inv:
  "ice_inv (snd r) \<Longrightarrow> (\<And>v s. ice_inv s \<Longrightarrow> ice_inv (snd (k v s))) \<Longrightarrow>
   ice_inv (snd (and_then r k))"
  by (rule and_then_preserves [where P = ice_inv])

lemma and_then_field:
  "f (snd r) = x \<Longrightarrow> (\<And>v s. f s = x \<Longrightarrow> f (snd (k v s)) = x) \<Longrightarrow>
   f (snd (and_then r k)) = x"
  by (rule and_then_preserves [where P = "\<lambda>s. f s = x"])

lemma setRemoteDescription_fingerprint:
  "mRemoteFingerprint (snd (setRemoteDescription e d pc)) =
     (case desc_fingerprint (Description_new e ActPass d) of
        Some g \<Rightarrow> Some g | None \<Rightarrow> mRemoteFingerprint pc)"
proof (cases "mIceTransport pc")
  case None
  then show ?thesis
    unfolding setRemoteDescription_def Let_def
    apply simp
    apply (rule and_then_field [where f = mRemoteFingerprint])
     apply simp
    apply (rule and_then_field [where f = mRemoteFingerprint])
     apply simp_all
    done
next
  case (Some t)
  then show ?thesis
    by (simp add: setRemoteDescription_def Let_def)
qed

lemma setRemoteDescription_inv:
  assumes "ice_inv pc"
  shows "ice_inv (snd (setRemoteDescription e d pc))"
proof (cases "mIceTransport pc")
  case None
  with assms show ?thesis
    unfolding setRemoteDescription_def Let_def
    by (simp, intro and_then_ice_inv) (simp_all add: initIceTransport_inv)
next
  case (Some t)
  with assms show ?thesis
    by (simp add: setRemoteDescription_def Let_def)
qed


lemma setRemoteDescription_present:
  "mIceTransport (snd (setRemoteDescription e d pc)) = None \<Longrightarrow> mIceTransport pc = None"
  by (cases "mIceTransport pc") (simp_all add: setRemoteDescription_def Let_def)

lemma setRemoteCandidate_fields [simp]:
  "mRemoteFingerprint (snd (setRemoteCandidate e c pc)) = mRemoteFingerprint pc"
  "effects (snd (setRemoteCandidate e c pc)) = effects pc"
  "(mIceTransport (snd (setRemoteCandidate e c pc)) = None) = (mIceTransport pc = None)"
  by (simp_all add: setRemoteCandidate_def Let_def split_beta split: option.splits)

lemma setRemoteCandidate_inv [simp]:
  "ice_inv (snd (setRemoteCandidate e c pc)) = ice_inv pc"
  by (simp add: ice_inv_def ice_instances_def)

lemma forwardMessage_fields [simp]:
  "mRemoteFingerprint (snd (forwardMessage m pc)) = mRemoteFingerprint pc"
  "effects (snd (forwardMessage m pc)) = effects pc"
  "mIceTransport (snd (forwardMessage m pc)) = mIceTransport pc"
  by (simp_all add: forwardMessage_def Let_def split: option.splits)

lemma forwardMessage_inv [simp]:
  "ice_inv (snd (forwardMessage m pc)) = ice_inv pc"
  by (simp add: ice_inv_def ice_instances_def)

lemma createDataChannel_fingerprint [simp]:
  "mRemoteFingerprint (snd (createDataChannel e l p r pc)) = mRemoteFingerprint pc"
proof (cases "findStream (mDataChannels pc) (initialStream pc)")
  case (Inl err)
  then show ?thesis by (simp add: createDataChannel_def)
next
  case (Inr stream)
  show ?thesis
  proof (cases "mIceTransport pc")
    case None
    with Inr show ?thesis
      unfolding createDataChannel_def Let_def
      apply simp
      apply (rule and_then_field [where f = mRemoteFingerprint])
       apply simp
      apply (rule and_then_field [where f = mRemoteFingerprint])
       apply simp_all
      done
  next
    case (Some t)
    with Inr show ?thesis
      by (simp add: createDataChannel_def Let_def split: option.splits)
  qed
qed

lemma createDataChannel_inv:
  assumes "ice_inv pc"
  shows "ice_inv (snd (createDataChannel e l p r pc))"
proof (cases "findStream (mDataChannels pc) (initialStream pc)")
  case (Inl err)
  with assms show ?thesis by (simp add: createDataChannel_def)
next
  case (Inr stream)
  show ?thesis
  proof (cases "mIceTransport pc")
    case None
    with Inr assms show ?thesis
      unfolding createDataChannel_def Let_def
      by (simp, intro and_then_ice_inv) (simp_all add: initIceTransport_inv)
  next
    case (Some t)
    with Inr assms show ?thesis
      by (simp add: createDataChannel_def Let_def split: option.splits)
  qed
qed

lemma createDataChannel_present:
  "mIceTransport (snd (createDataChannel e l p r pc)) = None \<Longrightarrow> mIceTransport pc = None"
  by (cases "findStream (mDataChannels pc) (initialStream pc)"; cases "mIceTransport pc")
     (simp_all add: createDataChannel_def Let_def split: option.splits if_splits)

lemma dispatch_fields [simp]:
  "mRemoteFingerprint (dispatch e cb pc) = mRemoteFingerprint pc"
  "mIceTransport (dispatch e cb pc) = mIceTransport pc"
  "filter is_IceTransportCreated (effects (dispatch e cb pc)) =
     filter is_IceTransportCreated (effects pc)"
  by (cases cb; simp add: triggerLocalCandidate_def initDtlsTransport_def)+

lemma fold_dispatch_fields [simp]:
  "mRemoteFingerprint (fold (dispatch e) cbs pc) = mRemoteFingerprint pc"
  "mIceTransport (fold (dispatch e) cbs pc) = mIceTransport pc"
  "filter is_IceTransportCreated (effects (fold (dispatch e) cbs pc)) =
     filter is_IceTransportCreated (effects pc)"
  by (induction cbs arbitrary: pc; simp)+

lemma ice_inv_fold_dispatch [simp]:
  "ice_inv (fold (dispatch e) cbs pc) = ice_inv pc"
  by (simp add: ice_inv_def ice_instances_def)

lemma step_fingerprint:
  "mRemoteFingerprint (step e x pc) = recorded_fingerprint [(e, x)] (mRemoteFingerprint pc)"
  by (cases x)
     (simp_all add: setRemoteDescription_fingerprint initSctpTransport_def openDataChannels_def
        triggerDataChannel_def split_beta split: option.splits)

lemma ice_inv_helpers [simp]:
  "ice_inv (initSctpTransport pc) = ice_inv pc"
  "ice_inv (initDtlsTransport pc) = ice_inv pc"
  "ice_inv (openDataChannels pc) = ice_inv pc"
  "ice_inv (triggerDataChannel stream pc) = ice_inv pc"
  "ice_inv (triggerLocalCandidate e c pc) = ice_inv pc"
  by (auto simp: ice_inv_def ice_instances_def initSctpTransport_def initDtlsTransport_def
        openDataChannels_def triggerDataChannel_def triggerLocalCandidate_def)

lemma ice_inv_replace:
  "mIceTransport pc = Some t \<Longrightarrow> ice_inv (pc\<lparr>mIceTransport := Some t'\<rparr>) = ice_inv pc"
  by (simp add: ice_inv_def ice_instances_def)

lemma step_inv:
  assumes "ice_inv pc"
  shows "ice_inv (step e x pc)"
proof (cases x)
  case (SetRemoteDescription d)
  with assms show ?thesis by (simp add: setRemoteDescription_inv)
next
  case (CreateDataChannel l p r)
  with assms show ?thesis by (simp add: createDataChannel_inv)
next
  case (StateChangedCallback s)
  with assms show ?thesis
    by (simp add: split_beta ice_inv_replace split: option.splits)
qed (use assms in \<open>simp_all split: option.splits\<close>)

lemma step_present:
  "mIceTransport (step e x pc) = None \<Longrightarrow> mIceTransport pc = None"
proof (cases x)
  case (SetRemoteDescription d)
  assume "mIceTransport (step e x pc) = None"
  with SetRemoteDescription show ?thesis by (simp add: setRemoteDescription_present)
next
  case (CreateDataChannel l p r)
  assume "mIceTransport (step e x pc) = None"
  with CreateDataChannel show ?thesis by (simp add: createDataChannel_present)
qed (auto simp: split_beta initSctpTransport_def
       openDataChannels_def triggerDataChannel_def split: option.splits if_splits)

lemma run_fingerprint:
  "mRemoteFingerprint (run h pc) = recorded_fingerprint h (mRemoteFingerprint pc)"
proof (induction h arbitrary: pc)
  case Nil
  show ?case by simp
next
  case (Cons a h)
  obtain e x where a: "a = (e, x)" by (cases a)
  show ?case
    by (cases x) (simp_all add: a Cons.IH step_fingerprint del: step.simps)
qed

lemma run_inv: "ice_inv pc \<Longrightarrow> ice_inv (run h pc)"
  by (induction h arbitrary: pc) (auto simp: step_inv simp del: step.simps)

lemma run_present: "mIceTransport (run h pc) = None \<Longrightarrow> mIceTransport pc = None"
proof (induction h arbitrary: pc)
  case Nil
  then show ?case by simp
next
  case (Cons a h)
  obtain e x where a: "a = (e, x)" by (cases a)
  from Cons.prems have "mIceTransport (run h (step e x pc)) = None" by (simp add: a)
  then have "mIceTransport (step e x pc) = None" by (rule Cons.IH)
  then show ?case by (rule step_present)
qed

lemma new_inv: "ice_inv (PeerConnection_new fp)"
  by (simp add: ice_inv_def ice_instances_def PeerConnection_new_def)

lemma setRemoteDescription_existing:
  assumes "mIceTransport pc = Some t"
  shows "setRemoteDescription e d pc =
           on_ice (ice_setRemoteDescription e (Description_new e ActPass d))
             (recordRemote (Description_new e ActPass d) pc)"
  using assms by (simp add: setRemoteDescription_def Let_def)

lemma findStream_full:
  "\<forall>k<65535. k mod 2 = s mod 2 \<longrightarrow> m k \<noteq> None \<Longrightarrow> s < 65535 \<Longrightarrow>
   findStream m s = Inl (RuntimeError ''Too many DataChannels'')"
proof (induction m s rule: findStream.induct)
  case (1 m stream)
  from "1.prems" have taken: "m stream \<noteq> None" by blast
  show ?case
  proof (cases "stream + 2 \<ge> 65535")
    case True
    with taken show ?thesis by (subst findStream.simps) simp
  next
    case False
    have "\<forall>k<65535. k mod 2 = (stream + 2) mod 2 \<longrightarrow> m k \<noteq> None"
      using "1.prems"(1) by simp
    moreover from False have "stream + 2 < 65535" by simp
    ultimately have "findStream m (stream + 2) = Inl (RuntimeError ''Too many DataChannels'')"
      using "1.IH" taken False by blast
    with taken False show ?thesis by (subst findStream.simps) simp
  qed
qed

lemma findStream_lowest:
  "findStream m s = Inr x \<Longrightarrow> s < 65535 \<Longrightarrow>
   m x = None \<and> s \<le> x \<and> x < 65535 \<and> x mod 2 = s mod 2 \<and>
   (\<forall>k. s \<le> k \<and> k < x \<and> k mod 2 = s mod 2 \<longrightarrow> m k \<noteq> None)"
proof (induction m s rule: findStream.induct)
  case (1 m stream)
  show ?case
  proof (cases "m stream = None")
    case True
    with "1.prems" show ?thesis by (subst (asm) findStream.simps) auto
  next
    case False
    from "1.prems"(1) False have small: "\<not> stream + 2 \<ge> 65535"
      by (subst (asm) findStream.simps) (simp split: if_splits)
    from "1.prems"(1) False small have rec: "findStream m (stream + 2) = Inr x"
      by (subst (asm) findStream.simps) simp
    from small have "stream + 2 < 65535" by simp
    with "1.IH" False small rec
    have ih: "m x = None \<and> stream + 2 \<le> x \<and> x < 65535 \<and> x mod 2 = (stream + 2) mod 2 \<and>
          (\<forall>k. stream + 2 \<le> k \<and> k < x \<and> k mod 2 = (stream + 2) mod 2 \<longrightarrow> m k \<noteq> None)"
      by blast
    have "\<forall>k. stream \<le> k \<and> k < x \<and> k mod 2 = stream mod 2 \<longrightarrow> m k \<noteq> None"
    proof (intro allI impI)
      fix k assume k: "stream \<le> k \<and> k < x \<and> k mod 2 = stream mod 2"
      show "m k \<noteq> None"
      proof (cases "k = stream")
        case True
        with False show ?thesis by simp
      next
        case False
        with k have "stream + 2 \<le> k" by presburger
        with ih k show ?thesis by simp
      qed
    qed
    with ih show ?thesis by simp
  qed
qed


lemma initialStream_cases: "initialStream pc = 0 \<or> initialStream pc = 1"
  by (simp add: initialStream_def Let_def)

lemma initialStream_mod: "initialStream pc mod 2 = initialStream pc"
  using initialStream_cases [of pc] by auto

lemma initialStream_le: "k mod 2 = initialStream pc \<Longrightarrow> initialStream pc \<le> k"
  by (metis mod_less_eq_dividend)

lemma initialStream_small: "initialStream pc < 65535"
  using initialStream_cases [of pc] by auto

lemma createDataChannel_full:
  assumes "\<forall>k<65535. k mod 2 = initialStream pc \<longrightarrow> mDataChannels pc k \<noteq> None"
  shows "createDataChannel e l p r pc = (Inl (RuntimeError ''Too many DataChannels''), pc)"
proof -
  have "findStream (mDataChannels pc) (initialStream pc) =
          Inl (RuntimeError ''Too many DataChannels'')"
    by (rule findStream_full) (simp_all add: initialStream_mod initialStream_small assms)
  then show ?thesis by (simp add: createDataChannel_def)
qed

lemma and_then_fst:
  assumes "fst (and_then r k) = Inr c"
  shows "\<exists>v s. fst (k v s) = Inr c"
proof (cases r)
  case (Pair x s)
  with assms show ?thesis by (cases x) (auto simp: and_then_def)
qed

lemma createDataChannel_registry:
  assumes found: "findStream (mDataChannels pc) (initialStream pc) = Inr s"
  shows "\<exists>c. dc_stream c = s \<and>
           mDataChannels (snd (createDataChannel e l p r pc)) = (mDataChannels pc)(s \<mapsto> c) \<and>
           (\<forall>c'. fst (createDataChannel e l p r pc) = Inr c' \<longrightarrow> c' = c)"
proof -
  from findStream_lowest [OF found initialStream_small]
  have free: "mDataChannels pc s = None" by simp
  show ?thesis
  proof (cases "mIceTransport pc")
    case None
    let ?c = "DataChannel_local s l p r"
    have reg: "mDataChannels (snd (createDataChannel e l p r pc)) = (mDataChannels pc)(s \<mapsto> ?c)"
      using found None free
      unfolding createDataChannel_def Let_def
      apply simp
      apply (rule and_then_field [where f = mDataChannels])
       apply (simp add: insert_pair_def)
      apply (rule and_then_field [where f = mDataChannels])
       apply simp_all
      done
    have res: "\<forall>c'. fst (createDataChannel e l p r pc) = Inr c' \<longrightarrow> c' = ?c"
    proof (intro allI impI)
      fix c' assume "fst (createDataChannel e l p r pc) = Inr c'"
      with found None show "c' = ?c"
        unfolding createDataChannel_def Let_def
        by (auto dest!: and_then_fst)
    qed
    have "dc_stream ?c = s" by (simp add: DataChannel_local_def)
    with reg res show ?thesis by blast
  next
    case (Some t)
    with found free show ?thesis
      by (auto simp: createDataChannel_def Let_def insert_pair_def DataChannel_local_def
            dc_open_def split: option.splits)
  qed
qed

lemma createDataChannel_failed:
  "findStream (mDataChannels pc) (initialStream pc) = Inl err \<Longrightarrow>
   createDataChannel e l p r pc = (Inl err, pc)"
  by (simp add: createDataChannel_def)

lemma setRemoteDescription_channels [simp]:
  "mDataChannels (snd (setRemoteDescription e d pc)) = mDataChannels pc"
proof (cases "mIceTransport pc")
  case None
  then show ?thesis
    unfolding setRemoteDescription_def Let_def
    apply simp
    apply (rule and_then_field [where f = mDataChannels])
     apply simp
    apply (rule and_then_field [where f = mDataChannels])
     apply simp_all
    done
next
  case (Some t)
  then show ?thesis by (simp add: setRemoteDescription_def Let_def)
qed

lemma setRemoteCandidate_channels [simp]:
  "mDataChannels (snd (setRemoteCandidate e c pc)) = mDataChannels pc"
  by (simp add: setRemoteCandidate_def Let_def split_beta split: option.splits)

lemma forwardMessage_channels:
  "mDataChannels (snd (forwardMessage m pc)) k = None \<Longrightarrow> mDataChannels pc k = None"
  by (auto simp: forwardMessage_def Let_def insert_pair_def split: option.splits if_splits)

lemma createDataChannel_channels:
  assumes "mDataChannels (snd (createDataChannel e l p r pc)) k = None"
  shows "mDataChannels pc k = None"
proof (cases "findStream (mDataChannels pc) (initialStream pc)")
  case (Inl err)
  with assms show ?thesis by (simp add: createDataChannel_failed)
next
  case (Inr s)
  from createDataChannel_registry [OF Inr, of e l p r] assms
  show ?thesis by (auto split: if_splits)
qed

lemma dispatch_channels [simp]:
  "mDataChannels (dispatch e cb pc) = mDataChannels pc"
  by (cases cb) (simp_all add: triggerLocalCandidate_def initDtlsTransport_def)

lemma fold_dispatch_channels [simp]:
  "mDataChannels (fold (dispatch e) cbs pc) = mDataChannels pc"
  by (induction cbs arbitrary: pc) simp_all

lemma step_channels:
  assumes "mDataChannels (step e x pc) k = None"
  shows "mDataChannels pc k = None"
proof (cases x)
  case (CreateDataChannel l p r)
  with assms show ?thesis by (simp add: createDataChannel_channels)
next
  case (SctpMessage m)
  with assms show ?thesis by (simp add: forwardMessage_channels)
qed (use assms in \<open>auto simp: split_beta initSctpTransport_def openDataChannels_def
       triggerDataChannel_def split: option.splits if_splits\<close>)

lemma assigned_fresh:
  "distinct (assigned h pc) \<and> (\<forall>s \<in> set (assigned h pc). mDataChannels pc s = None)"
proof (induction h arbitrary: pc)
  case Nil
  show ?case by simp
next
  case (Cons a h)
  obtain e x where a: "a = (e, x)" by (cases a)
  note IH = Cons.IH [of "step e x pc"]
  have later: "\<forall>s \<in> set (assigned h (step e x pc)). mDataChannels pc s = None"
    using IH step_channels by blast
  show ?case
  proof (cases x)
    case (CreateDataChannel l p r)
    show ?thesis
    proof (cases "fst (createDataChannel e l p r pc)")
      case (Inl err)
      with a CreateDataChannel IH later show ?thesis by simp
    next
      case (Inr c)
      have "\<exists>s. findStream (mDataChannels pc) (initialStream pc) = Inr s"
      proof (cases "findStream (mDataChannels pc) (initialStream pc)")
        case (Inl err)
        with Inr show ?thesis by (simp add: createDataChannel_failed)
      next
        case (Inr s)
        then show ?thesis by blast
      qed
      then obtain s where s: "findStream (mDataChannels pc) (initialStream pc) = Inr s" ..
      from createDataChannel_registry [OF s, of e l p r] Inr
      have c: "dc_stream c = s"
        and reg: "mDataChannels (snd (createDataChannel e l p r pc)) s \<noteq> None"
        by auto
      from findStream_lowest [OF s initialStream_small]
      have free: "mDataChannels pc s = None" by simp
      from IH reg CreateDataChannel have "s \<notin> set (assigned h (step e x pc))" by auto
      with a CreateDataChannel Inr c free IH later show ?thesis by simp
    qed
  qed (use a IH later in simp_all)
qed


lemma findStream_error:
  "findStream m s = Inl err \<Longrightarrow> s < 65535 \<Longrightarrow>
   err = RuntimeError ''Too many DataChannels'' \<and>
   (\<forall>k. s \<le> k \<and> k < 65535 \<and> k mod 2 = s mod 2 \<longrightarrow> m k \<noteq> None)"
proof (induction m s rule: findStream.induct)
  case (1 m stream)
  from "1.prems"(1) have taken: "m stream \<noteq> None"
    by (subst (asm) findStream.simps) (simp split: if_splits)
  show ?case
  proof (cases "stream + 2 \<ge> 65535")
    case True
    with "1.prems"(1) taken have e: "err = RuntimeError ''Too many DataChannels''"
      by (subst (asm) findStream.simps) simp
    have "\<forall>k. stream \<le> k \<and> k < 65535 \<and> k mod 2 = stream mod 2 \<longrightarrow> m k \<noteq> None"
    proof (intro allI impI)
      fix k assume k: "stream \<le> k \<and> k < 65535 \<and> k mod 2 = stream mod 2"
      with True have "k = stream" by presburger
      with taken show "m k \<noteq> None" by simp
    qed
    with e show ?thesis by simp
  next
    case False
    with "1.prems"(1) taken have rec: "findStream m (stream + 2) = Inl err"
      by (subst (asm) findStream.simps) simp
    from False have "stream + 2 < 65535" by simp
    with "1.IH" taken False rec
    have ih: "err = RuntimeError ''Too many DataChannels'' \<and>
          (\<forall>k. stream + 2 \<le> k \<and> k < 65535 \<and> k mod 2 = (stream + 2) mod 2 \<longrightarrow> m k \<noteq> None)"
      by blast
    have "\<forall>k. stream \<le> k \<and> k < 65535 \<and> k mod 2 = stream mod 2 \<longrightarrow> m k \<noteq> None"
    proof (intro allI impI)
      fix k assume k: "stream \<le> k \<and> k < 65535 \<and> k mod 2 = stream mod 2"
      show "m k \<noteq> None"
      proof (cases "k = stream")
        case True
        with taken show ?thesis by simp
      next
        case False
        with k have "stream + 2 \<le> k" by presburger
        with ih k show ?thesis by simp
      qed
    qed
    with ih show ?thesis by simp
  qed
qed

lemma local_parity_initialStream:
  "local_parity pc k = (k mod 2 = initialStream pc)"
proof (cases "mIceTransport pc")
  case None
  then show ?thesis
    by (auto simp: local_parity_def initialStream_def Let_def even_iff_mod_2_eq_zero)
next
  case (Some t)
  then show ?thesis
    by (auto simp: local_parity_def initialStream_def Let_def role_def
          even_iff_mod_2_eq_zero odd_iff_mod_2_eq_one)
qed

lemma createDataChannel_terminates:
  assumes "findStream (mDataChannels pc) (initialStream pc) = Inr s"
      and "constructor_terminates e pc"
  shows "fst (createDataChannel e l p r pc) = Inl Terminate"
  using assms
  by (simp add: createDataChannel_def constructor_terminates_def Let_def and_then_def
        initIceTransport_def IceTransport_new_def)

lemma on_ice_not_Terminate:
  assumes "\<And>t. fst (f t) \<noteq> Inl Terminate"
  shows "fst (on_ice f pc) \<noteq> Inl Terminate"
  using assms by (simp add: on_ice_def split_beta split: option.splits)

lemma gatherLocalCandidates_not_Terminate:
  "fst (gatherLocalCandidates e t) \<noteq> Inl Terminate"
  by (simp add: gatherLocalCandidates_def Let_def)

lemma createDataChannel_survives:
  assumes "\<not> constructor_terminates e pc"
  shows "fst (createDataChannel e l p r pc) \<noteq> Inl Terminate"
proof (cases "findStream (mDataChannels pc) (initialStream pc)")
  case (Inl err)
  from findStream_error [OF Inl initialStream_small] Inl show ?thesis
    by (simp add: createDataChannel_def)
next
  case (Inr s)
  show ?thesis
  proof (cases "mIceTransport pc")
    case (Some t)
    with Inr show ?thesis
      by (simp add: createDataChannel_def Let_def split: option.splits)
  next
    case None
    let ?pc1 = "pc\<lparr>mDataChannels :=
                   insert_pair s (DataChannel_local s l p r) (mDataChannels pc)\<rparr>"
    have init: "fst (initIceTransport e Active ?pc1) \<noteq> Inl Terminate"
      using assms None
      by (simp add: constructor_terminates_def initIceTransport_def IceTransport_new_def)
    have gather: "\<And>q. fst (on_ice (gatherLocalCandidates e) q) \<noteq> Inl Terminate"
      by (rule on_ice_not_Terminate) (rule gatherLocalCandidates_not_Terminate)
    have "fst (and_then (initIceTransport e Active ?pc1) (\<lambda>u pc2.
                 and_then (on_ice (gatherLocalCandidates e) (triggerLocalDescription e pc2))
                   (\<lambda>u pc3. (Inr (DataChannel_local s l p r), pc3)))) \<noteq> Inl Terminate"
    proof (cases "initIceTransport e Active ?pc1")
      case (Pair x q)
      show ?thesis
      proof (cases x)
        case (Inl err)
        with Pair init show ?thesis by (simp add: and_then_def)
      next
        case (Inr u)
        obtain y q' where g: "on_ice (gatherLocalCandidates e) (triggerLocalDescription e q) = (y, q')"
          by (cases "on_ice (gatherLocalCandidates e) (triggerLocalDescription e q)")
        with gather [of "triggerLocalDescription e q"] have "y \<noteq> Inl Terminate" by simp
        with Pair Inr g show ?thesis by (cases y) (simp_all add: and_then_def)
      qed
    qed
    with Inr None show ?thesis by (simp add: createDataChannel_def Let_def)
  qed
qed

section \<open>The claims\<close>

text \<open>
  C1 (as amended).  With the ICE and the multiplexed transport present and the stream
  of the message not in the registry: a control message whose payload starts with the
  byte \<open>0x03\<close>, whatever follows it, on a stream of the remote parity (\<open>1\<close> if the role
  is active, else \<open>0\<close>) makes \<^verbatim>\<open>forwardMessage\<close> construct a channel for the stream,
  register it and deliver the message to it; any other message whose first byte can be
  read makes it reset the stream on the multiplexed transport and leave the registry as
  it is.  A control message with an empty payload is left out.
\<close>

theorem forwardMessage_unknown_stream:
  assumes "mIceTransport pc = Some t" and "mSctpTransport pc = Some s"
      and "mDataChannels pc (msg_stream m) = None"
      and "msg_type m = Control \<longrightarrow> msg_data m \<noteq> []"
  shows "forwardMessage m pc =
     (Inr (),
      if msg_type m = Control \<and> hd (msg_data m) = 0x03 \<and>
         msg_stream m mod 2 = (if role t = Active then 1 else 0)
      then pc\<lparr>mDataChannels :=
                (mDataChannels pc)(msg_stream m \<mapsto>
                   (dc_onOpen (DataChannel_remote (msg_stream m)))\<lparr>dc_incoming := [m]\<rparr>)\<rparr>
      else pc\<lparr>mSctpTransport := Some (s\<lparr>sctp_resets := sctp_resets s @ [msg_stream m]\<rparr>)\<rparr>)"
  using assms
  by (simp add: forwardMessage_def Let_def insert_pair_def dc_incoming_call_def dc_onOpen_def
        DataChannel_remote_def sctp_reset_def)

theorem forwardMessage_unknown_stream_witness:
  "forwardMessage (one_byte_message 3) pc_example =
     (Inr (), pc_example\<lparr>mDataChannels :=
                 [3 \<mapsto> (dc_onOpen (DataChannel_remote 3))\<lparr>dc_incoming := [one_byte_message 3]\<rparr>]\<rparr>) \<and>
   forwardMessage (one_byte_message 2) pc_example =
     (Inr (), pc_example\<lparr>mSctpTransport :=
                 Some \<lparr>sctp_port = 5000, sctp_isReady = True, sctp_resets = [2]\<rparr>\<rparr>)"
proof -
  have i: "mIceTransport pc_example = Some ice_example"
    and s: "mSctpTransport pc_example =
              Some \<lparr>sctp_port = 5000, sctp_isReady = True, sctp_resets = []\<rparr>"
    and c: "\<And>k. mDataChannels pc_example (msg_stream (one_byte_message k)) = None"
    and d: "\<And>k. msg_type (one_byte_message k) = Control \<longrightarrow> msg_data (one_byte_message k) \<noteq> []"
    by (simp_all add: pc_example_def one_byte_message_def)
  from forwardMessage_unknown_stream [OF i s c d, of 3] forwardMessage_unknown_stream [OF i s c d, of 2] show ?thesis
    by (simp add: one_byte_message_def ice_example_def role_def pc_example_def)
qed

text \<open>
  C1 as stated fails: the payload of the open message is not the single byte \<open>0x03\<close>,
  and \<^verbatim>\<open>forwardMessage\<close> still constructs and registers a channel and resets nothing.
\<close>

theorem forwardMessage_accepts_longer_payload:
  "mDataChannels pc_example (msg_stream open_message) = None \<and>
   msg_type open_message = Control \<and>
   msg_data open_message \<noteq> [0x03] \<and>
   forwardMessage open_message pc_example =
     (Inr (), pc_example\<lparr>mDataChannels :=
                 [3 \<mapsto> (dc_onOpen (DataChannel_remote 3))\<lparr>dc_incoming := [open_message]\<rparr>]\<rparr>)"
  by (simp add: forwardMessage_def pc_example_def open_message_def ice_example_def role_def
        insert_pair_def dc_incoming_call_def dc_onOpen_def DataChannel_remote_def Let_def)

text \<open>
  C2.  A \<^verbatim>\<open>createDataChannel\<close> call does one of three things.  It finds every stream
  number of the local parity below \<open>65535\<close> taken and throws, leaving the connection
  as it was.  Or it has to construct the ICE transport and the constructor ends the
  process.  Or the process goes on, and the call has registered a channel under the
  lowest number that is not a key of the registry among the even numbers if the local
  role is active (or there is no ICE session yet), among the odd numbers otherwise; a
  channel it returns is that one.  Over any history, the numbers of the channels returned
  are pairwise different and were not in the registry at the start.
\<close>

theorem createDataChannel_allocates_lowest_free:
  "((\<forall>k<65535. local_parity pc k \<longrightarrow> mDataChannels pc k \<noteq> None) \<and>
    createDataChannel e l p r pc = (Inl (RuntimeError ''Too many DataChannels''), pc)
    \<or>
    constructor_terminates e pc \<and> fst (createDataChannel e l p r pc) = Inl Terminate
    \<or>
    \<not> constructor_terminates e pc \<and>
    fst (createDataChannel e l p r pc) \<noteq> Inl Terminate \<and>
    (\<exists>s c. lowest_free pc s \<and> dc_stream c = s \<and>
       (if mIceTransport pc = None \<or> (\<exists>t. mIceTransport pc = Some t \<and> mRole t = Active)
        then even s else odd s) \<and>
       mDataChannels (snd (createDataChannel e l p r pc)) = (mDataChannels pc)(s \<mapsto> c) \<and>
       (\<forall>c'. fst (createDataChannel e l p r pc) = Inr c' \<longrightarrow> c' = c)))
   \<and> distinct (assigned h pc)
   \<and> (\<forall>s \<in> set (assigned h pc). mDataChannels pc s = None)"
proof -
  have call: "(\<forall>k<65535. local_parity pc k \<longrightarrow> mDataChannels pc k \<noteq> None) \<and>
    createDataChannel e l p r pc = (Inl (RuntimeError ''Too many DataChannels''), pc)
    \<or>
    constructor_terminates e pc \<and> fst (createDataChannel e l p r pc) = Inl Terminate
    \<or>
    \<not> constructor_terminates e pc \<and>
    fst (createDataChannel e l p r pc) \<noteq> Inl Terminate \<and>
    (\<exists>s c. lowest_free pc s \<and> dc_stream c = s \<and>
       (if mIceTransport pc = None \<or> (\<exists>t. mIceTransport pc = Some t \<and> mRole t = Active)
        then even s else odd s) \<and>
       mDataChannels (snd (createDataChannel e l p r pc)) = (mDataChannels pc)(s \<mapsto> c) \<and>
       (\<forall>c'. fst (createDataChannel e l p r pc) = Inr c' \<longrightarrow> c' = c))"
  proof (cases "findStream (mDataChannels pc) (initialStream pc)")
    case (Inl err)
    from findStream_error [OF Inl initialStream_small]
    have "\<forall>k<65535. local_parity pc k \<longrightarrow> mDataChannels pc k \<noteq> None"
      by (simp add: initialStream_mod local_parity_initialStream)
    moreover from this
    have "createDataChannel e l p r pc = (Inl (RuntimeError ''Too many DataChannels''), pc)"
      by (intro createDataChannel_full) (simp add: local_parity_initialStream)
    ultimately show ?thesis by blast
  next
    case (Inr s)
    show ?thesis
    proof (cases "constructor_terminates e pc")
      case True
      with createDataChannel_terminates [OF Inr] show ?thesis by blast
    next
      case False
      from findStream_lowest [OF Inr initialStream_small]
      have low: "lowest_free pc s"
        using initialStream_le
        by (auto simp: lowest_free_def initialStream_mod local_parity_initialStream)
      then have "local_parity pc s" by (simp add: lowest_free_def)
      then have par: "if mIceTransport pc = None \<or>
                         (\<exists>t. mIceTransport pc = Some t \<and> mRole t = Active)
                      then even s else odd s"
        by (cases "mIceTransport pc") (auto simp: local_parity_def)
      from createDataChannel_survives [OF False]
      have "fst (createDataChannel e l p r pc) \<noteq> Inl Terminate" .
      with False low par createDataChannel_registry [OF Inr, of e l p r] show ?thesis by blast
    qed
  qed
  from call assigned_fresh [of h pc] show ?thesis by blast
qed

theorem createDataChannel_allocates_lowest_free_witness:
  "assigned three_channels pc_fresh = [0, 2, 4] \<and>
   distinct (assigned three_channels pc_fresh) \<and>
   assigned three_channels pc_answerer = [1, 3, 5] \<and>
   distinct (assigned three_channels pc_answerer) \<and>
   lowest_free pc_answerer 1 \<and>
   fst (createDataChannel env_example ''a'' [] 0 pc_answerer) =
     Inr (dc_open (DataChannel_local 1 ''a'' [] 0)) \<and>
   constructor_terminates env_no_stream pc_fresh \<and>
   fst (createDataChannel env_no_stream ''a'' [] 0 pc_fresh) = Inl Terminate"
proof -
  have a: "assigned three_channels pc_fresh = [0, 2, 4]"
    by (simp add: three_channels_def pc_fresh_def PeerConnection_new_def createDataChannel_def
          initialStream_def findStream.simps insert_pair_def Let_def and_then_def
          initIceTransport_def IceTransport_new_def on_ice_def gatherLocalCandidates_def
          triggerLocalDescription_def getLocalDescription_def Description_new_def role_def
          DataChannel_local_def env_example_def)
  have b: "assigned three_channels pc_answerer = [1, 3, 5]"
    by (simp add: three_channels_def pc_answerer_def pc_example_def ice_example_def
          createDataChannel_def initialStream_def findStream.simps insert_pair_def Let_def
          role_def DataChannel_local_def dc_open_def)
  have c: "lowest_free pc_answerer 1"
    by (auto simp: lowest_free_def local_parity_def pc_answerer_def pc_example_def
          ice_example_def intro: odd_pos)
  have d: "fst (createDataChannel env_example ''a'' [] 0 pc_answerer) =
             Inr (dc_open (DataChannel_local 1 ''a'' [] 0))"
    by (simp add: pc_answerer_def pc_example_def ice_example_def
          createDataChannel_def initialStream_def findStream.simps insert_pair_def Let_def
          role_def)
  have t: "constructor_terminates env_no_stream pc_fresh"
    by (simp add: constructor_terminates_def env_no_stream_def env_example_def pc_fresh_def
          PeerConnection_new_def)
  have f: "createDataChannel env_no_stream ''a'' [] 0 pc_fresh \<noteq>
             (Inl (RuntimeError ''Too many DataChannels''), pc_fresh)"
    by (simp add: pc_fresh_def PeerConnection_new_def createDataChannel_def
          initialStream_def findStream.simps insert_pair_def Let_def and_then_def
          initIceTransport_def IceTransport_new_def env_no_stream_def env_example_def)
  from createDataChannel_allocates_lowest_free
         [of pc_fresh env_no_stream "''a''" "[]" 0 three_channels] t f
  have g: "fst (createDataChannel env_no_stream ''a'' [] 0 pc_fresh) = Inl Terminate"
    by blast
  from createDataChannel_allocates_lowest_free [of pc_fresh env_example "[]" "[]" 0 three_channels]
  have h1: "distinct (assigned three_channels pc_fresh)" by blast
  from createDataChannel_allocates_lowest_free [of pc_answerer env_example "[]" "[]" 0 three_channels]
  have h2: "distinct (assigned three_channels pc_answerer)" by blast
  from a b c d t g h1 h2 show ?thesis by blast
qed

text \<open>
  C3.  When every stream number of the local parity below \<open>65535\<close> is a key of the
  registry, \<^verbatim>\<open>createDataChannel\<close> throws and the connection, its registry included, is
  exactly as before.
\<close>

theorem createDataChannel_too_many:
  assumes "\<forall>k<65535. k mod 2 = initialStream pc \<longrightarrow> mDataChannels pc k \<noteq> None"
  shows "createDataChannel e l p r pc = (Inl (RuntimeError ''Too many DataChannels''), pc)"
  using assms by (rule createDataChannel_full)

theorem createDataChannel_too_many_witness:
  "createDataChannel env_example ''x'' [] 0 pc_full =
     (Inl (RuntimeError ''Too many DataChannels''), pc_full)"
proof -
  have "initialStream pc_full = 0"
    by (simp add: initialStream_def pc_full_def pc_example_def ice_example_def role_def)
  then have "\<forall>k<65535. k mod 2 = initialStream pc_full \<longrightarrow> mDataChannels pc_full k \<noteq> None"
    by (simp add: pc_full_def)
  then show ?thesis by (rule createDataChannel_too_many)
qed

text \<open>
  C4.  Once a first \<^verbatim>\<open>setRemoteDescription\<close> call has created the ICE session, then
  after any further history a \<^verbatim>\<open>setRemoteDescription\<close> call finds the session still
  there and only forwards the description to it: the transport it leaves is the old one
  with one more \<^verbatim>\<open>nice_agent_parse_remote_sdp\<close> call, and the effects (transports
  constructed, local descriptions emitted) are unchanged.  Over any history of a
  connection at most one \<^verbatim>\<open>IceTransport\<close> is ever constructed.
\<close>

theorem setRemoteDescription_second_call_only_forwards:
  assumes "mIceTransport pc = None"
      and "mIceTransport (snd (setRemoteDescription ea da pc)) \<noteq> None"
      and "pcb = run ha (snd (setRemoteDescription ea da pc))"
    shows "(\<exists>t. mIceTransport pcb = Some t \<and>
              mIceTransport (snd (setRemoteDescription eb db pcb)) =
                Some (t\<lparr>nice_calls := nice_calls t @
                        [NiceParseRemoteSdp
                           (Description_string eb (Description_new eb ActPass db))]\<rparr>)) \<and>
           effects (snd (setRemoteDescription eb db pcb)) = effects pcb \<and>
           ice_instances (run hb (PeerConnection_new fp)) \<le> 1"
proof -
  have "mIceTransport pcb \<noteq> None"
  proof
    assume "mIceTransport pcb = None"
    then have "mIceTransport (run ha (snd (setRemoteDescription ea da pc))) = None"
      by (simp only: assms(3))
    then have "mIceTransport (snd (setRemoteDescription ea da pc)) = None"
      by (rule run_present)
    with assms(2) show False by simp
  qed
  then obtain t where t: "mIceTransport pcb = Some t" by blast
  note ex = setRemoteDescription_existing [OF t, of eb db]
  have 1: "mIceTransport (snd (setRemoteDescription eb db pcb)) =
          Some (t\<lparr>nice_calls := nice_calls t @
                  [NiceParseRemoteSdp (Description_string eb (Description_new eb ActPass db))]\<rparr>)"
    unfolding ex by (simp add: on_ice_def t ice_setRemoteDescription_def Let_def)
  have 2: "effects (snd (setRemoteDescription eb db pcb)) = effects pcb"
    unfolding ex by simp
  have "ice_inv (run hb (PeerConnection_new fp))"
    by (rule run_inv [OF new_inv])
  then have 3: "ice_instances (run hb (PeerConnection_new fp)) \<le> 1"
    by (simp add: ice_inv_def)
  from t 1 2 3 show ?thesis by blast
qed

theorem setRemoteDescription_second_call_only_forwards_witness:
  "mIceTransport pc_fresh = None \<and>
   mIceTransport (snd (setRemoteDescription env_example ''v=0'' pc_fresh)) \<noteq> None \<and>
   effects (snd (setRemoteDescription env_example ''v=0'' pc_fresh)) =
     [IceTransportCreated ActPass, LocalDescription ''v=0''] \<and>
   effects (snd (setRemoteDescription env_example ''v=1''
              (run [(env_example, OnLocalCandidate)]
                 (snd (setRemoteDescription env_example ''v=0'' pc_fresh))))) =
     effects (run [(env_example, OnLocalCandidate)]
                (snd (setRemoteDescription env_example ''v=0'' pc_fresh))) \<and>
   ice_instances (run [(env_example, SetRemoteDescription ''v=0''),
                       (env_example, SetRemoteDescription ''v=1'')]
                    (PeerConnection_new ''AA:BB'')) \<le> 1"
proof -
  have h1: "mIceTransport pc_fresh = None"
    by (simp add: pc_fresh_def PeerConnection_new_def)
  have ev: "snd (setRemoteDescription env_example ''v=0'' pc_fresh) =
      pc_fresh\<lparr>mRemoteFingerprint := Some ''v=0'',
        mIceTransport := Some \<lparr>mRole = ActPass, mStreamId = 1, mState = 0,
           nice_calls = [NiceParseRemoteSdp ''v=0'', NiceGatherCandidates 1]\<rparr>,
        effects := [IceTransportCreated ActPass, LocalDescription ''v=0'']\<rparr>"
    by (simp add: setRemoteDescription_def recordRemote_def Description_new_def Let_def
          and_then_def initIceTransport_def IceTransport_new_def on_ice_def
          ice_setRemoteDescription_def gatherLocalCandidates_def triggerLocalDescription_def
          getLocalDescription_def env_example_def pc_fresh_def PeerConnection_new_def)
  have h2: "mIceTransport (snd (setRemoteDescription env_example ''v=0'' pc_fresh)) \<noteq> None"
    by (simp add: ev)
  have e: "effects (snd (setRemoteDescription env_example ''v=0'' pc_fresh)) =
     [IceTransportCreated ActPass, LocalDescription ''v=0'']"
    by (simp add: ev)
  from setRemoteDescription_second_call_only_forwards [OF h1 h2 refl,
         where eb = env_example and db = "''v=1''" and ha = "[(env_example, OnLocalCandidate)]"
           and hb = "[(env_example, SetRemoteDescription ''v=0''),
                      (env_example, SetRemoteDescription ''v=1'')]"
           and fp = "''AA:BB''"]
  show ?thesis using h1 h2 e by blast
qed

text \<open>
  C5.  \<^verbatim>\<open>checkFingerprint\<close> is true exactly when a remote fingerprint is stored and
  equals the presented one; on a connection with any history that is exactly when the
  history recorded that fingerprint through \<^verbatim>\<open>setRemoteDescription\<close>, so it is false
  when none was ever recorded.
\<close>

theorem checkFingerprint_iff_recorded:
  "checkFingerprint fp pc = (mRemoteFingerprint pc = Some fp) \<and>
   checkFingerprint fp (run h (PeerConnection_new c)) = (recorded_fingerprint h None = Some fp)"
proof -
  have a: "\<And>q. checkFingerprint fp q = (mRemoteFingerprint q = Some fp)"
    by (simp add: checkFingerprint_def split: option.splits)
  have "mRemoteFingerprint (run h (PeerConnection_new c)) = recorded_fingerprint h None"
    by (simp add: run_fingerprint PeerConnection_new_def)
  with a show ?thesis by simp
qed

text \<open>
  C6 (as amended).  \<^verbatim>\<open>changeState\<close> invokes the ready callback at every delivered
  transition whose new state is \<^verbatim>\<open>READY\<close>, and at no other: over a sequence of
  transitions the callbacks invoked are one ready callback per occurrence of \<^verbatim>\<open>READY\<close>.
\<close>

theorem changeStates_ready_callback_per_ready:
  "snd (changeStates e ss t) = map (\<lambda>s. ReadyCallback) (filter (\<lambda>s. s = State_READY e) ss) \<and>
   ready_calls (snd (changeStates e ss t)) = length (filter (\<lambda>s. s = State_READY e) ss)"
  by (simp add: changeStates_callbacks ready_calls_def)

text \<open>
  C6 as stated fails: the state goes to \<^verbatim>\<open>READY\<close>, back to \<^verbatim>\<open>CONNECTED\<close> and to
  \<^verbatim>\<open>READY\<close> again, and the ready callback has been invoked twice.
\<close>

theorem changeStates_ready_callback_twice:
  "ready_calls (snd (changeStates env_example [4, 3, 4] ice_example)) = 2"
  by (simp add: ready_calls_def changeState_def env_example_def ice_example_def)

text \<open>
  C7.  Without an ICE session \<^verbatim>\<open>setRemoteCandidate\<close> returns normally and leaves the
  connection exactly as it was.
\<close>

theorem setRemoteCandidate_without_ice_noop:
  "mIceTransport pc = None \<Longrightarrow> setRemoteCandidate e c pc = (Inr (), pc)"
  by (simp add: setRemoteCandidate_def)

theorem setRemoteCandidate_without_ice_noop_witness:
  "mIceTransport (PeerConnection_new ''AA:BB'') = None \<and>
   setRemoteCandidate env_example ''candidate:1 1 UDP 1 10.0.0.1 5000 typ host''
       (PeerConnection_new ''AA:BB'')
     = (Inr (), PeerConnection_new ''AA:BB'')"
  using setRemoteCandidate_without_ice_noop [of "PeerConnection_new ''AA:BB''" env_example]
  by (simp add: PeerConnection_new_def)

text \<open>
  C8.  \<^verbatim>\<open>processGatheringDone\<close> invokes the candidate callback once, with the empty
  value.  With an ICE session and a registered \<^verbatim>\<open>onLocalCandidate\<close> callback, the
  gathering-done signal reaches the application as exactly one call with the empty value;
  \<^verbatim>\<open>triggerLocalCandidate\<close> maps the empty value to the empty value and a candidate to
  its text.
\<close>

theorem gathering_done_sentinel_forwarded:
  assumes "mIceTransport pc = Some t" and "mLocalCandidateCallback pc"
  shows "processGatheringDone t = [CandidateCallback None] \<and>
         step e GatheringDoneCallback pc = pc\<lparr>effects := effects pc @ [LocalCandidate None]\<rparr> \<and>
         triggerLocalCandidate e None pc = pc\<lparr>effects := effects pc @ [LocalCandidate None]\<rparr> \<and>
         triggerLocalCandidate e (Some c) pc =
           pc\<lparr>effects := effects pc @ [LocalCandidate (Some (Candidate_string e c))]\<rparr>"
  using assms by (simp add: processGatheringDone_def triggerLocalCandidate_def)

theorem gathering_done_sentinel_forwarded_witness:
  "mIceTransport pc_example = Some ice_example \<and> mLocalCandidateCallback pc_example \<and>
   effects (step env_example GatheringDoneCallback pc_example) = [LocalCandidate None] \<and>
   effects (triggerLocalCandidate env_example
              (Some \<lparr>cand_candidate = ''candidate:1'', cand_mid = ''application''\<rparr>) pc_example)
     = [LocalCandidate (Some ''candidate:1'')]"
proof -
  have h1: "mIceTransport pc_example = Some ice_example" by (simp add: pc_example_def)
  have h2: "mLocalCandidateCallback pc_example" by (simp add: pc_example_def)
  show ?thesis
    using gathering_done_sentinel_forwarded [OF h1 h2, of env_example
        "\<lparr>cand_candidate = ''candidate:1'', cand_mid = ''application''\<rparr>"]
    by (simp add: pc_example_def env_example_def)
qed

text \<open>
  C9.  \<^verbatim>\<open>send\<close> returns false exactly when the stream id is zero, and then calls nothing
  on the agent; otherwise it returns true after exactly one \<^verbatim>\<open>nice_agent_send\<close> of the
  message's bytes on the stream.
\<close>

theorem send_iff_stream_established:
  "fst (send m t) = (mStreamId t \<noteq> 0) \<and>
   snd (send m t) =
     t\<lparr>nice_calls := nice_calls t @
         (if mStreamId t = 0 then []
          else [NiceSend (mStreamId t) (length (msg_data m)) (msg_data m)])\<rparr>"
  by (simp add: send_def outgoing_def)

text \<open>
  C10.  With an ICE session, \<^verbatim>\<open>setRemoteCandidate\<close> returns normally for every
  candidate text and invokes no application callback; the connection changes only in the
  ICE transport, by what \<^verbatim>\<open>addRemoteCandidate\<close> did there, and the boolean result of
  \<^verbatim>\<open>addRemoteCandidate\<close> appears nowhere.  For a text the agent cannot parse,
  \<^verbatim>\<open>addRemoteCandidate\<close> returns false and the connection is exactly as before.
\<close>

theorem setRemoteCandidate_discards_result:
  assumes "mIceTransport pc = Some t"
  shows "setRemoteCandidate e c pc =
           (Inr (), pc\<lparr>mIceTransport :=
                        Some (snd (addRemoteCandidate e \<lparr>cand_candidate = c, cand_mid = mMid pc\<rparr> t))\<rparr>)
         \<and> effects (snd (setRemoteCandidate e c pc)) = effects pc
         \<and> (nice_agent_parse_remote_candidate_sdp e
               (Candidate_string e \<lparr>cand_candidate = c, cand_mid = mMid pc\<rparr>) = None \<longrightarrow>
             \<not> fst (addRemoteCandidate e \<lparr>cand_candidate = c, cand_mid = mMid pc\<rparr> t) \<and>
             setRemoteCandidate e c pc = (Inr (), pc))"
  using assms by (simp add: setRemoteCandidate_def addRemoteCandidate_def Let_def split_beta)

theorem setRemoteCandidate_discards_result_witness:
  "mIceTransport pc_example = Some ice_example \<and>
   \<not> fst (addRemoteCandidate env_example \<lparr>cand_candidate = ''bad'', cand_mid = ''0''\<rparr> ice_example) \<and>
   setRemoteCandidate env_example ''bad'' pc_example = (Inr (), pc_example)"
proof -
  have h: "mIceTransport pc_example = Some ice_example" by (simp add: pc_example_def)
  have m: "mMid pc_example = ''0''" by (simp add: pc_example_def)
  have p: "nice_agent_parse_remote_candidate_sdp env_example
             (Candidate_string env_example \<lparr>cand_candidate = ''bad'', cand_mid = mMid pc_example\<rparr>)
           = None"
    by (simp add: env_example_def)
  from setRemoteCandidate_discards_result [OF h, of env_example "''bad''"] p
  have "\<not> fst (addRemoteCandidate env_example
                  \<lparr>cand_candidate = ''bad'', cand_mid = mMid pc_example\<rparr> ice_example) \<and>
        setRemoteCandidate env_example ''bad'' pc_example = (Inr (), pc_example)"
    by blast
  with h show ?thesis by (simp only: m) simp
qed

end
